theory Spec2Isabelle
  imports Complex_Main
begin

section \<open>music-metadata: the entry points and normalisation utilities of index.ts\<close>

text \<open>
  The development embeds the executable part of \<^verbatim>\<open>src/index.ts\<close>: the three entry
  points \<^verbatim>\<open>parseFile\<close>, \<^verbatim>\<open>parseStream\<close>, \<^verbatim>\<open>parseBuffer\<close> and the utilities
  \<^verbatim>\<open>orderTags\<close>, \<^verbatim>\<open>joinArtists\<close>, \<^verbatim>\<open>ratingToStars\<close>.
  JavaScript exceptions and promise rejections are values of \<open>js_error + 'a\<close>
  (\<open>Inl\<close> is the failure).
\<close>

subsection \<open>Errors\<close>

text \<open>
  \<open>Error msg\<close> is \<^verbatim>\<open>new Error(msg)\<close>; failures of the collaborators (tokenizer, decoder)
  are errors of the same shape. \<open>TypeError\<close> is what the engine raises when a value that
  is not callable is called.
\<close>

datatype js_error = Error string | TypeError

subsection \<open>joinArtists\<close>

text \<open>
  \<^verbatim>\<open>Array.prototype.join(sep)\<close> on an array of strings: the elements separated by
  \<open>sep\<close>, the empty string for an empty array.
\<close>

fun join :: "string list \<Rightarrow> string \<Rightarrow> string" where
  "join [] sep = []"
| "join [x] sep = x"
| "join (x # y # xs) sep = x @ sep @ join (y # xs) sep"

text \<open>
  \<^verbatim>\<open>Array.prototype.slice(begin, end)\<close> for indices that are not negative; an \<open>end\<close>
  beyond the length stops at the length.
\<close>

definition slice :: "'a list \<Rightarrow> nat \<Rightarrow> nat \<Rightarrow> 'a list" where
  "slice xs b e = take (e - b) (drop b xs)"

text \<open>
  \<^verbatim>\<open>
  export function joinArtists(artists: string[]): string {
    if (artists.length > 2) {
      return artists.slice(0, artists.length - 1).join(', ') + ' & ' + artists[artists.length - 1];
    }
    return artists.join(' & ');
  }
  \<close>
  The index \<open>length artists - 1\<close> is read only where the length exceeds 2, so it is in range.
\<close>

definition joinArtists :: "string list \<Rightarrow> string" where
  "joinArtists artists =
     (if length artists > 2
      then join (slice artists 0 (length artists - 1)) '', '' @ '' & '' @ artists ! (length artists - 1)
      else join artists '' & '')"

subsection \<open>ratingToStars\<close>

text \<open>
  A JavaScript number is modelled as a real; \<open>None\<close> is \<^verbatim>\<open>undefined\<close>. For a finite
  double \<open>rating\<close> of magnitude below \<open>2 ^ 51\<close> (all of \<open>[0, 1]\<close> in particular) the
  product \<^verbatim>\<open>rating * 4\<close> is a scaling by a power of two and the sum \<^verbatim>\<open>1 + n\<close> is a small
  integer, so neither rounds and the real arithmetic below is the arithmetic of the code.
  \<^verbatim>\<open>Math.round(x)\<close> is the integer closest to \<open>x\<close>, the one closer to \<open>+\<infinity>\<close> when two
  are equally close.
\<close>

definition Math_round :: "real \<Rightarrow> int" where
  "Math_round x = \<lfloor>x + 1 / 2\<rfloor>"

text \<open>
  \<^verbatim>\<open>
  export function ratingToStars(rating: number): number {
    return rating === undefined ? 0 : 1 + Math.round(rating * 4);
  }
  \<close>
\<close>

definition ratingToStars :: "real option \<Rightarrow> int" where
  "ratingToStars rating =
     (case rating of None \<Rightarrow> 0 | Some r \<Rightarrow> 1 + Math_round (r * 4))"

subsection \<open>orderTags\<close>

text \<open>
  \<^verbatim>\<open>
  export interface ITag { id: string, value: any }
  export interface INativeTagDict { [tagId: string]: any[]; }
  \<close>
  The value of a tag is of any type: a type variable. The dictionary is the set of own
  properties of the object \<^verbatim>\<open>tags\<close>, a map from property names to arrays.
\<close>

record 'v ITag =
  tag_id :: string
  tag_value :: 'v

type_synonym 'v INativeTagDict = "string \<rightharpoonup> 'v list"

text \<open>
  The object literal \<^verbatim>\<open>{}\<close> has the prototype \<^verbatim>\<open>Object.prototype\<close>, so reading
  \<^verbatim>\<open>tags[k]\<close> finds an own property first and a property of the prototype otherwise.
  These are the property names of \<^verbatim>\<open>Object.prototype\<close> (ECMAScript, with the legacy
  accessors of its Annex B); each holds a function, or for \<^verbatim>\<open>__proto__\<close> the prototype
  object: a truthy value without a \<^verbatim>\<open>push\<close> method.
\<close>

definition Object_prototype_properties :: "string list" where
  "Object_prototype_properties =
     [''constructor'', ''hasOwnProperty'', ''isPrototypeOf'', ''propertyIsEnumerable'',
      ''toLocaleString'', ''toString'', ''valueOf'', ''__proto__'',
      ''__defineGetter__'', ''__defineSetter__'', ''__lookupGetter__'', ''__lookupSetter__'']"

datatype 'v property = Undefined | Array "'v list" | Inherited

definition get_property :: "'v INativeTagDict \<Rightarrow> string \<Rightarrow> 'v property" where
  "get_property tags k =
     (case tags k of
        Some vs \<Rightarrow> Array vs
      | None \<Rightarrow> if k \<in> set Object_prototype_properties then Inherited else Undefined)"

text \<open>
  \<^verbatim>\<open>
  export function orderTags(nativeTags: ITag[]): INativeTagDict {
    const tags = {};
    for (const tag of nativeTags) {
      (tags[tag.id] = (tags[tag.id] || [])).push(tag.value);
    }
    return tags;
  }
  \<close>
  One iteration: an array already stored under the id is truthy and gets the value pushed;
  \<^verbatim>\<open>undefined\<close> is replaced by a new array; an inherited property is truthy, is
  assigned and then asked for \<^verbatim>\<open>push\<close>, which it does not have: the call raises a
  \<^verbatim>\<open>TypeError\<close> and the function is left.
\<close>

fun orderTags_loop :: "'v INativeTagDict \<Rightarrow> 'v ITag list \<Rightarrow> js_error + 'v INativeTagDict" where
  "orderTags_loop tags [] = Inr tags"
| "orderTags_loop tags (tag # nativeTags) =
     (case get_property tags (tag_id tag) of
        Array vs \<Rightarrow> orderTags_loop (tags(tag_id tag \<mapsto> vs @ [tag_value tag])) nativeTags
      | Undefined \<Rightarrow> orderTags_loop (tags(tag_id tag \<mapsto> [] @ [tag_value tag])) nativeTags
      | Inherited \<Rightarrow> Inl TypeError)"

definition orderTags :: "'v ITag list \<Rightarrow> js_error + 'v INativeTagDict" where
  "orderTags nativeTags = orderTags_loop Map.empty nativeTags"

text \<open>
  The values of the tags with id \<open>k\<close>, in the order of the list, and the dictionary that
  groups a list by id: the reference the loop is compared with.
\<close>

definition values_of :: "'v ITag list \<Rightarrow> string \<Rightarrow> 'v list" where
  "values_of nativeTags k = map tag_value (filter (\<lambda>tag. tag_id tag = k) nativeTags)"

definition grouped :: "'v ITag list \<Rightarrow> 'v INativeTagDict" where
  "grouped nativeTags =
     (\<lambda>k. if values_of nativeTags k = [] then None else Some (values_of nativeTags k))"

text \<open>The dictionary that holds, for each id, the values of the first followed by the values of the second.\<close>

definition concat_groups :: "'v INativeTagDict \<Rightarrow> 'v INativeTagDict \<Rightarrow> 'v INativeTagDict" where
  "concat_groups d1 d2 =
     (\<lambda>k. case d1 k of
        None \<Rightarrow> d2 k
      | Some vs \<Rightarrow> (case d2 k of None \<Rightarrow> Some vs | Some ws \<Rightarrow> Some (vs @ ws)))"

subsection \<open>The collaborators of the entry points\<close>

text \<open>
  \<^verbatim>\<open>export type ParserType = 'mpeg' | 'apev2' | 'mp4' | 'asf' | 'flac' | 'ogg' | 'aiff' | 'wavpack' | 'riff';\<close>
\<close>

datatype ParserType = Mpeg | Apev2 | Mp4 | Asf | Flac | Ogg | Aiff | Wavpack | Riff

text \<open>
  The options the entry points read or pass on. \<^verbatim>\<open>loadParser\<close> and \<^verbatim>\<open>observer\<close> are
  functions used by the decoder factory and the collector only; they are part of the
  collaborators below. A number is an integer here, an optional field is an \<open>option\<close>.
\<close>

record IOptions =
  options_path :: "string option"
  options_fileSize :: "int option"
  options_native :: "bool option"
  options_duration :: "bool option"
  options_skipCovers :: "bool option"
  options_skipPostHeaders :: "bool option"

text \<open>The tokenizer of strtok3, as far as the entry points touch it: its \<^verbatim>\<open>fileSize\<close>.\<close>

record ITokenizer =
  tokenizer_fileSize :: "int option"

text \<open>
  What a run does to the outside, in order: the tokenizer acquired, a decoder module
  loaded, the decoder initialised and run, the tokenizer closed, \<^verbatim>\<open>fileSize\<close> assigned,
  and \<^verbatim>\<open>ParserFactory.parse\<close> invoked with the tokenizer as it is at that moment.
\<close>

datatype event =
    FromFile string
  | FromStream
  | FromBuffer
  | LoadParser ParserType
  | Parse
  | Close
  | AssignFileSize "int option"
  | FactoryParse ITokenizer "string option"

text \<open>
  The modules \<^verbatim>\<open>strtok3\<close>, \<^verbatim>\<open>path\<close>, \<^verbatim>\<open>./ParserFactory\<close> and
  \<^verbatim>\<open>./common/MetadataCollector\<close> are imported, not defined, by \<^verbatim>\<open>index.ts\<close>: the
  entry points take their behaviour as a parameter. An asynchronous call settles with
  \<open>Inr\<close> (resolved) or \<open>Inl\<close> (rejected). \<open>tokenizer_close n\<close> is the outcome of the
  call of \<^verbatim>\<open>close()\<close> made after \<open>n\<close> earlier ones. \<open>parser_parse\<close> is
  \<^verbatim>\<open>parser.init(metadata, tokenizer, options).parse()\<close>, resolving with the collector as
  the decoder has filled it. The constructor of the collector, \<^verbatim>\<open>init\<close> and
  \<^verbatim>\<open>toCommonMetadata\<close> are taken not to throw.
\<close>

record ('s, 'p, 'c, 'm) collaborators =
  strtok3_fromFile :: "string \<Rightarrow> js_error + ITokenizer"
  strtok3_fromStream :: "'s \<Rightarrow> js_error + ITokenizer"
  strtok3_fromBuffer :: "nat list \<Rightarrow> ITokenizer"
  tokenizer_close :: "nat \<Rightarrow> js_error + unit"
  path_extname :: "string \<Rightarrow> string"
  getParserIdForExtension :: "string \<Rightarrow> ParserType option"
  loadParser :: "ParserType \<Rightarrow> IOptions \<Rightarrow> js_error + 'p"
  new_MetadataCollector :: "IOptions \<Rightarrow> 'c"
  parser_parse :: "'p \<Rightarrow> 'c \<Rightarrow> ITokenizer \<Rightarrow> IOptions \<Rightarrow> js_error + 'c"
  toCommonMetadata :: "'c \<Rightarrow> 'm"
  ParserFactory_parse :: "ITokenizer \<Rightarrow> string option \<Rightarrow> IOptions \<Rightarrow> js_error + 'm"

subsection \<open>Promises\<close>

text \<open>
  A promise is run on the trace of the events so far and gives the extended trace and how it
  settled. \<^verbatim>\<open>p.then(f)\<close> runs \<open>f\<close> on the value of a resolved \<open>p\<close> and passes a rejection
  on; \<^verbatim>\<open>p.catch(h)\<close> runs \<open>h\<close> on the error of a rejected \<open>p\<close> and passes a value on. A
  \<^verbatim>\<open>throw\<close> inside a callback rejects the promise the callback was to settle.
\<close>

type_synonym 'a promise = "event list \<Rightarrow> event list \<times> (js_error + 'a)"

definition resolve :: "'a \<Rightarrow> 'a promise" where
  "resolve a = (\<lambda>trace. (trace, Inr a))"

definition throw :: "js_error \<Rightarrow> 'a promise" where
  "throw e = (\<lambda>trace. (trace, Inl e))"

definition call :: "event \<Rightarrow> js_error + 'a \<Rightarrow> 'a promise" where
  "call ev outcome = (\<lambda>trace. (trace @ [ev], outcome))"

definition then_promise :: "'a promise \<Rightarrow> ('a \<Rightarrow> 'b promise) \<Rightarrow> 'b promise" where
  "then_promise p f =
     (\<lambda>trace. case p trace of (trace', Inl e) \<Rightarrow> (trace', Inl e) | (trace', Inr a) \<Rightarrow> f a trace')"

definition catch_promise :: "'a promise \<Rightarrow> (js_error \<Rightarrow> 'a promise) \<Rightarrow> 'a promise" where
  "catch_promise p h =
     (\<lambda>trace. case p trace of (trace', Inl e) \<Rightarrow> h e trace' | (trace', Inr a) \<Rightarrow> (trace', Inr a))"

text \<open>\<^verbatim>\<open>fileTokenizer.close()\<close>: its outcome is that of the next call of \<open>close\<close>.\<close>

definition close :: "('s, 'p, 'c, 'm) collaborators \<Rightarrow> unit promise" where
  "close env = (\<lambda>trace. (trace @ [Close], tokenizer_close env (count_list trace Close)))"

subsection \<open>parseFile\<close>

text \<open>
  \<^verbatim>\<open>
  export function parseFile(filePath: string, options: IOptions = {}): Promise<IAudioMetadata> {
    return strtok3.fromFile(filePath).then(fileTokenizer => {
      const parserName = ParserFactory.getParserIdForExtension(filePath);
      if (parserName) {
        return ParserFactory.loadParser(parserName, options).then(parser => {
          const metadata = new MetadataCollector(options);
          return parser.init(metadata, fileTokenizer, options).parse().then(() => {
            return fileTokenizer.close().then(() => {
              return metadata.toCommonMetadata();
            });
          }).catch(err => {
            return fileTokenizer.close().then(() => {
              throw err;
            });
          });
        });
      } else {
        throw new Error('No parser found for extension: ' + path.extname(filePath));
      }
    });
  }
  \<close>
  A parser id is one of the nine names of \<open>ParserType\<close>, none of them the empty string,
  so \<^verbatim>\<open>if (parserName)\<close> tests that an id was found.
\<close>

definition parseFile ::
  "('s, 'p, 'c, 'm) collaborators \<Rightarrow> string \<Rightarrow> IOptions \<Rightarrow> 'm promise" where
  "parseFile env filePath options =
     then_promise (call (FromFile filePath) (strtok3_fromFile env filePath)) (\<lambda>fileTokenizer.
       case getParserIdForExtension env filePath of
         Some parserName \<Rightarrow>
           then_promise (call (LoadParser parserName) (loadParser env parserName options)) (\<lambda>parser.
             let metadata = new_MetadataCollector env options in
             catch_promise
               (then_promise (call Parse (parser_parse env parser metadata fileTokenizer options))
                  (\<lambda>metadata.
                     then_promise (close env) (\<lambda>_. resolve (toCommonMetadata env metadata))))
               (\<lambda>err. then_promise (close env) (\<lambda>_. throw err)))
       | None \<Rightarrow>
           throw (Error (''No parser found for extension: '' @ path_extname env filePath)))"

subsection \<open>parseStream and parseBuffer\<close>

text \<open>A value of type number or undefined is truthy when it is a number other than 0.\<close>

definition truthy :: "int option \<Rightarrow> bool" where
  "truthy v = (case v of None \<Rightarrow> False | Some n \<Rightarrow> n \<noteq> 0)"

text \<open>
  The statement both entry points share:
  \<^verbatim>\<open>
    if (!tokenizer.fileSize && options.fileSize) {
      tokenizer.fileSize = options.fileSize;
    }
  \<close>
  It gives the tokenizer as it is afterwards.
\<close>

definition assign_fileSize :: "ITokenizer \<Rightarrow> IOptions \<Rightarrow> ITokenizer promise" where
  "assign_fileSize tokenizer options =
     (if \<not> truthy (tokenizer_fileSize tokenizer) \<and> truthy (options_fileSize options)
      then then_promise (call (AssignFileSize (options_fileSize options)) (Inr ()))
             (\<lambda>_. resolve (tokenizer\<lparr>tokenizer_fileSize := options_fileSize options\<rparr>))
      else resolve tokenizer)"

text \<open>
  \<^verbatim>\<open>
  export function parseStream(stream: Stream.Readable, mimeType?: string, options: IOptions = {}): Promise<IAudioMetadata> {
    return strtok3.fromStream(stream).then(tokenizer => {
      if (!tokenizer.fileSize && options.fileSize) {
        tokenizer.fileSize = options.fileSize;
      }
      return ParserFactory.parse(tokenizer, mimeType, options);
    });
  }
  \<close>
\<close>

definition parseStream ::
  "('s, 'p, 'c, 'm) collaborators \<Rightarrow> 's \<Rightarrow> string option \<Rightarrow> IOptions \<Rightarrow> 'm promise" where
  "parseStream env stream mimeType options =
     then_promise (call FromStream (strtok3_fromStream env stream)) (\<lambda>tokenizer.
       then_promise (assign_fileSize tokenizer options) (\<lambda>tokenizer.
         call (FactoryParse tokenizer mimeType) (ParserFactory_parse env tokenizer mimeType options)))"

text \<open>
  \<^verbatim>\<open>
  export function parseBuffer(buf: Buffer, mimeType?: string, options: IOptions = {}): Promise<IAudioMetadata> {
    const tokenizer = strtok3.fromBuffer(buf);
    if (!tokenizer.fileSize && options.fileSize) {
      tokenizer.fileSize = options.fileSize;
    }
    return ParserFactory.parse(tokenizer, mimeType, options);
  }
  \<close>
  The statements before the call of \<^verbatim>\<open>ParserFactory.parse\<close> run synchronously, in this
  order; they are sequenced with the combinator that sequences the callbacks.
\<close>

definition parseBuffer ::
  "('s, 'p, 'c, 'm) collaborators \<Rightarrow> nat list \<Rightarrow> string option \<Rightarrow> IOptions \<Rightarrow> 'm promise" where
  "parseBuffer env buf mimeType options =
     then_promise (call FromBuffer (Inr (strtok3_fromBuffer env buf))) (\<lambda>tokenizer.
       then_promise (assign_fileSize tokenizer options) (\<lambda>tokenizer.
         call (FactoryParse tokenizer mimeType) (ParserFactory_parse env tokenizer mimeType options)))"

subsection \<open>Auxiliary definitions for the statements\<close>

text \<open>A list of tags none of whose ids is the name of a property of \<^verbatim>\<open>Object.prototype\<close>.\<close>

definition plain_ids :: "'v ITag list \<Rightarrow> bool" where
  "plain_ids nativeTags =
     list_all (\<lambda>tag. tag_id tag \<notin> set Object_prototype_properties) nativeTags"

text \<open>
  One concrete set of collaborators, for evaluating the entry points: every file opens
  (with a size of 4096), a stream has the size it is given, if any, a buffer has its
  length as size, \<open>.mp3\<close> and \<open>.flac\<close> have decoders, every decoder loads and accepts
  three tags, and closing succeeds. The extension of a path is what follows its last dot.
\<close>

definition example_extname :: "string \<Rightarrow> string" where
  "example_extname p =
     (if CHR ''.'' \<in> set p then CHR ''.'' # rev (takeWhile (\<lambda>c. c \<noteq> CHR ''.'') (rev p)) else [])"

definition example_env :: "(int option, ParserType, nat, nat) collaborators" where
  "example_env =
     \<lparr>strtok3_fromFile = (\<lambda>p. Inr \<lparr>tokenizer_fileSize = Some 4096\<rparr>),
      strtok3_fromStream = (\<lambda>known. Inr \<lparr>tokenizer_fileSize = known\<rparr>),
      strtok3_fromBuffer = (\<lambda>buf. \<lparr>tokenizer_fileSize = Some (int (length buf))\<rparr>),
      tokenizer_close = (\<lambda>n. Inr ()),
      path_extname = example_extname,
      getParserIdForExtension =
        (\<lambda>p. if example_extname p = ''.mp3'' then Some Mpeg
             else if example_extname p = ''.flac'' then Some Flac else None),
      loadParser = (\<lambda>parserName options. Inr parserName),
      new_MetadataCollector = (\<lambda>options. 0),
      parser_parse = (\<lambda>parser metadata tokenizer options. Inr (metadata + 3)),
      toCommonMetadata = (\<lambda>metadata. metadata),
      ParserFactory_parse = (\<lambda>tokenizer mimeType options. Inr 3)\<rparr>"

text \<open>
  Variations of it: a path that cannot be opened, a decoder module that cannot be loaded,
  a decoder that rejects the content, a tokenizer whose first \<open>close\<close> fails, both of the
  last two (every \<open>close\<close> fails), and a buffer tokenizer that reports no size.
\<close>

definition missing_file_env :: "(int option, ParserType, nat, nat) collaborators" where
  "missing_file_env = example_env\<lparr>strtok3_fromFile := \<lambda>p. Inl (Error ''ENOENT'')\<rparr>"

definition broken_module_env :: "(int option, ParserType, nat, nat) collaborators" where
  "broken_module_env =
     example_env\<lparr>loadParser := \<lambda>parserName options. Inl (Error ''Cannot find module'')\<rparr>"

definition corrupt_file_env :: "(int option, ParserType, nat, nat) collaborators" where
  "corrupt_file_env =
     example_env\<lparr>parser_parse :=
       \<lambda>parser metadata tokenizer options. Inl (Error ''Invalid frame header'')\<rparr>"

definition failing_close_env :: "(int option, ParserType, nat, nat) collaborators" where
  "failing_close_env =
     example_env\<lparr>tokenizer_close := \<lambda>n. if n = 0 then Inl (Error ''EIO'') else Inr ()\<rparr>"

definition corrupt_file_failing_close_env :: "(int option, ParserType, nat, nat) collaborators" where
  "corrupt_file_failing_close_env = corrupt_file_env\<lparr>tokenizer_close := \<lambda>n. Inl (Error ''EIO'')\<rparr>"

definition unsized_buffer_env :: "(int option, ParserType, nat, nat) collaborators" where
  "unsized_buffer_env =
     example_env\<lparr>strtok3_fromBuffer := \<lambda>buf. \<lparr>tokenizer_fileSize = None\<rparr>\<rparr>"

definition example_options :: IOptions where
  "example_options =
     \<lparr>options_path = None, options_fileSize = None, options_native = None,
      options_duration = None, options_skipCovers = None, options_skipPostHeaders = None\<rparr>"

section \<open>Properties of the normalisation utilities\<close>

lemma join_snoc:
  "join (ys @ [y]) sep = concat (map (\<lambda>n. n @ sep) ys) @ y"
proof (induction ys)
  case Nil
  show ?case by simp
next
  case (Cons a ys)
  then show ?case by (cases ys) simp_all
qed

lemma slice_butlast: "slice xs 0 (length xs - Suc 0) = butlast xs"
  by (simp add: slice_def butlast_conv_take)

text \<open>
  Claim C5. \<open>joinArtists\<close> returns the empty string for no name, the name itself for one
  name, the two names around \<open>" & "\<close> for two names, and for three or more names every
  name but the last two followed by \<open>", "\<close>, then the last but one, \<open>" & "\<close> and the last;
  so \<open>["A","B","C"]\<close> gives \<open>"A, B & C"\<close> and \<open>["A","B","C","D"]\<close> gives \<open>"A, B, C & D"\<close>.
\<close>

theorem joinArtists_spec:
  "joinArtists [] = '''' \<and>
   joinArtists [a] = a \<and>
   joinArtists [a, b] = a @ '' & '' @ b \<and>
   (3 \<le> length names \<longrightarrow>
      joinArtists names = join (butlast names) '', '' @ '' & '' @ last names \<and>
      joinArtists names =
        concat (map (\<lambda>n. n @ '', '') (butlast (butlast names)))
          @ last (butlast names) @ '' & '' @ last names) \<and>
   joinArtists [''A'', ''B'', ''C''] = ''A, B & C'' \<and>
   joinArtists [''A'', ''B'', ''C'', ''D''] = ''A, B, C & D''"
proof -
  have three: "joinArtists names = join (butlast names) '', '' @ '' & '' @ last names"
    if "3 \<le> length names"
  proof -
    from that have "names \<noteq> []" by auto
    then have "names ! (length names - 1) = last names"
      by (simp add: last_conv_nth)
    with that show ?thesis
      by (simp add: joinArtists_def slice_butlast)
  qed
  have closed: "join (butlast names) '', '' =
      concat (map (\<lambda>n. n @ '', '') (butlast (butlast names))) @ last (butlast names)"
    if "3 \<le> length names"
  proof -
    from that have "butlast names \<noteq> []"
      by (cases names) auto
    then have "butlast names = butlast (butlast names) @ [last (butlast names)]"
      by simp
    then have "join (butlast names) '', '' =
        join (butlast (butlast names) @ [last (butlast names)]) '', ''"
      by simp
    then show ?thesis
      by (simp only: join_snoc)
  qed
  have small: "joinArtists [] = ''''" "joinArtists [a] = a" "joinArtists [a, b] = a @ '' & '' @ b"
    by (simp_all add: joinArtists_def)
  have ex3: "joinArtists [''A'', ''B'', ''C''] = ''A, B & C''"
    by (simp add: joinArtists_def slice_def)
  have ex4: "joinArtists [''A'', ''B'', ''C'', ''D''] = ''A, B, C & D''"
    by (simp add: joinArtists_def slice_def)
  from three closed small ex3 ex4 show ?thesis
    by simp
qed

theorem joinArtists_spec_witness:
  "3 \<le> length [''Ann'', ''Bo'', ''Cy'', ''Di''] \<and>
   joinArtists [''Ann'', ''Bo'', ''Cy'', ''Di''] = ''Ann, Bo, Cy & Di''"
  using joinArtists_spec [of "''x''" "''y''" "[''Ann'', ''Bo'', ''Cy'', ''Di'']"]
  by simp

lemma Math_round_nearest: "\<bar>real_of_int (Math_round x) - x\<bar> \<le> 1 / 2"
  unfolding Math_round_def by linarith

lemma Math_round_round: "Math_round x = round x"
  by (simp add: Math_round_def round_def)

text \<open>
  Claim C6. \<open>ratingToStars\<close> returns 0 for an unset input and otherwise one more than
  \<open>rating * 4\<close> rounded to the nearest integer; for a rating in \<open>[0, 1]\<close> the result is an
  integer between 0 and 5, and the ratings 0, 0.5 and 1 give 1, 3 and 5 stars.
\<close>

theorem ratingToStars_spec:
  "ratingToStars None = 0 \<and>
   ratingToStars (Some r) = 1 + round (r * 4) \<and>
   \<bar>real_of_int (ratingToStars (Some r) - 1) - r * 4\<bar> \<le> 1 / 2 \<and>
   (0 \<le> r \<and> r \<le> 1 \<longrightarrow> 0 \<le> ratingToStars (Some r) \<and> ratingToStars (Some r) \<le> 5) \<and>
   ratingToStars (Some 0) = 1 \<and>
   ratingToStars (Some (1 / 2)) = 3 \<and>
   ratingToStars (Some 1) = 5"
proof -
  have unset: "ratingToStars None = 0"
    by (simp add: ratingToStars_def)
  have rnd: "ratingToStars (Some r) = 1 + round (r * 4)"
    by (simp add: ratingToStars_def Math_round_round)
  have near: "\<bar>real_of_int (ratingToStars (Some r) - 1) - r * 4\<bar> \<le> 1 / 2"
    using Math_round_nearest [of "r * 4"] by (simp add: ratingToStars_def)
  have range: "0 \<le> ratingToStars (Some r) \<and> ratingToStars (Some r) \<le> 5"
    if "0 \<le> r \<and> r \<le> 1"
  proof -
    from that have "0 \<le> \<lfloor>r * 4 + 1 / 2\<rfloor>" by simp
    moreover from that have "\<lfloor>r * 4 + 1 / 2\<rfloor> \<le> 4"
      by (simp add: floor_le_iff)
    ultimately show ?thesis
      by (simp add: ratingToStars_def Math_round_def)
  qed
  have v0: "ratingToStars (Some 0) = 1"
    by (simp add: ratingToStars_def Math_round_def)
  have v1: "ratingToStars (Some (1 / 2)) = 3"
    by (simp add: ratingToStars_def Math_round_def)
  have v2: "ratingToStars (Some 1) = 5"
  proof -
    have "\<lfloor>(9::real) / 2\<rfloor> = 4" by (simp add: floor_eq_iff)
    then show ?thesis by (simp add: ratingToStars_def Math_round_def)
  qed
  from unset rnd near range v0 v1 v2 show ?thesis
    by blast
qed

theorem ratingToStars_spec_witness:
  "(0::real) \<le> 1 / 4 \<and> (1 / 4 :: real) \<le> 1 \<and>
   0 \<le> ratingToStars (Some (1 / 4)) \<and> ratingToStars (Some (1 / 4)) \<le> 5"
  using ratingToStars_spec [of "1 / 4"]
  by simp

text \<open>
  Claim C8. Whenever \<open>rating * 4\<close> lies exactly halfway between the integers \<open>k\<close> and
  \<open>k + 1\<close>, \<open>ratingToStars\<close> rounds up to \<open>k + 1\<close>, as \<^verbatim>\<open>Math.round\<close> does; the ratings
  0.125, 0.375, 0.625 and 0.875 give 2, 3, 4 and 5 stars.
\<close>

theorem ratingToStars_ties_upward:
  "(r * 4 = real_of_int k + 1 / 2 \<longrightarrow>
      ratingToStars (Some r) = 1 + (k + 1) \<and> ratingToStars (Some r) = 1 + \<lceil>r * 4\<rceil>) \<and>
   ratingToStars (Some (1 / 8)) = 2 \<and>
   ratingToStars (Some (3 / 8)) = 3 \<and>
   ratingToStars (Some (5 / 8)) = 4 \<and>
   ratingToStars (Some (7 / 8)) = 5"
proof -
  have tie: "ratingToStars (Some r) = 1 + (k + 1) \<and> ratingToStars (Some r) = 1 + \<lceil>r * 4\<rceil>"
    if "r * 4 = real_of_int k + 1 / 2"
  proof -
    have "\<lfloor>real_of_int k + 1 / 2 + 1 / 2\<rfloor> = k + 1"
      by (simp add: floor_eq_iff)
    moreover have "\<lceil>real_of_int k + 1 / 2\<rceil> = k + 1"
      by (simp add: ceiling_eq_iff)
    ultimately show ?thesis
      using that by (simp add: ratingToStars_def Math_round_def)
  qed
  have tie_at: "ratingToStars (Some q) = 1 + (j + 1)"
    if "q * 4 = real_of_int j + 1 / 2" for q j
  proof -
    have "\<lfloor>real_of_int j + 1 / 2 + 1 / 2\<rfloor> = j + 1"
      by (simp add: floor_eq_iff)
    then show ?thesis
      using that by (simp add: ratingToStars_def Math_round_def)
  qed
  have a: "ratingToStars (Some (1 / 8)) = 2" using tie_at [of "1 / 8" 0] by simp
  have b: "ratingToStars (Some (3 / 8)) = 3" using tie_at [of "3 / 8" 1] by simp
  have c: "ratingToStars (Some (5 / 8)) = 4" using tie_at [of "5 / 8" 2] by simp
  have d: "ratingToStars (Some (7 / 8)) = 5" using tie_at [of "7 / 8" 3] by simp
  from tie a b c d show ?thesis
    by blast
qed

theorem ratingToStars_ties_upward_witness:
  "(3 / 8 :: real) * 4 = real_of_int 1 + 1 / 2 \<and> ratingToStars (Some (3 / 8)) = 1 + (1 + 1)"
  using ratingToStars_ties_upward [of "3 / 8" 1]
  by simp

section \<open>Properties of orderTags\<close>

lemma values_of_Cons:
  "values_of (tag # T) k = (if tag_id tag = k then tag_value tag # values_of T k else values_of T k)"
  by (simp add: values_of_def)

lemma orderTags_loop_plain:
  "plain_ids T \<Longrightarrow> orderTags_loop tags T = Inr (concat_groups tags (grouped T))"
proof (induction T arbitrary: tags)
  case Nil
  have "concat_groups tags (grouped []) = tags"
    by (rule ext) (simp add: concat_groups_def grouped_def values_of_def split: option.splits)
  then show ?case by simp
next
  case (Cons tag T)
  from Cons.prems have plain: "plain_ids T" and own: "tag_id tag \<notin> set Object_prototype_properties"
    by (simp_all add: plain_ids_def)
  let ?new = "case tags (tag_id tag) of None \<Rightarrow> [tag_value tag] | Some vs \<Rightarrow> vs @ [tag_value tag]"
  have step: "orderTags_loop tags (tag # T) = orderTags_loop (tags(tag_id tag \<mapsto> ?new)) T"
    using own by (simp add: get_property_def split: option.splits)
  have regroup: "concat_groups (tags(tag_id tag \<mapsto> ?new)) (grouped T) = concat_groups tags (grouped (tag # T))"
    by (rule ext) (simp add: concat_groups_def grouped_def values_of_Cons split: option.splits)
  have "orderTags_loop tags (tag # T) = orderTags_loop (tags(tag_id tag \<mapsto> ?new)) T"
    by (rule step)
  also have "\<dots> = Inr (concat_groups (tags(tag_id tag \<mapsto> ?new)) (grouped T))"
    by (rule Cons.IH [OF plain])
  also have "\<dots> = Inr (concat_groups tags (grouped (tag # T)))"
    by (simp only: regroup)
  finally show ?case .
qed

lemma orderTags_loop_inherited:
  "dom tags \<inter> set Object_prototype_properties = {} \<Longrightarrow> \<not> plain_ids T \<Longrightarrow>
   orderTags_loop tags T = Inl TypeError"
proof (induction T arbitrary: tags)
  case Nil
  then show ?case by (simp add: plain_ids_def)
next
  case (Cons tag T)
  show ?case
  proof (cases "tag_id tag \<in> set Object_prototype_properties")
    case True
    with Cons.prems(1) have "tags (tag_id tag) = None" by auto
    with True show ?thesis by (simp add: get_property_def)
  next
    case False
    with Cons.prems(2) have rest: "\<not> plain_ids T" by (simp add: plain_ids_def)
    let ?new = "case tags (tag_id tag) of None \<Rightarrow> [tag_value tag] | Some vs \<Rightarrow> vs @ [tag_value tag]"
    have step: "orderTags_loop tags (tag # T) = orderTags_loop (tags(tag_id tag \<mapsto> ?new)) T"
      using False by (simp add: get_property_def split: option.splits)
    from False Cons.prems(1)
    have "dom (tags(tag_id tag \<mapsto> ?new)) \<inter> set Object_prototype_properties = {}" by auto
    then have "orderTags_loop (tags(tag_id tag \<mapsto> ?new)) T = Inl TypeError"
      using rest by (rule Cons.IH)
    with step show ?thesis by (simp only:)
  qed
qed

lemma concat_groups_empty: "concat_groups Map.empty d = d"
  by (rule ext) (simp add: concat_groups_def)

lemma orderTags_eq:
  "orderTags T = (if plain_ids T then Inr (grouped T) else Inl TypeError)"
  by (simp add: orderTags_def orderTags_loop_plain orderTags_loop_inherited concat_groups_empty)

lemma grouped_append: "grouped (T1 @ T2) = concat_groups (grouped T1) (grouped T2)"
  by (rule ext) (simp add: grouped_def concat_groups_def values_of_def)

lemma plain_ids_append: "plain_ids (T1 @ T2) = (plain_ids T1 \<and> plain_ids T2)"
  by (simp add: plain_ids_def)

text \<open>
  On a list whose ids are all plain the loop returns the grouping: under each id that
  occurs, the values of the tags with that id in their order in the list, and no other
  entry. The empty list gives the empty dictionary.
\<close>

lemma orderTags_plain:
  assumes "plain_ids T"
  shows "orderTags T = Inr (\<lambda>k. if k \<in> tag_id ` set T
                          then Some (map tag_value (filter (\<lambda>tag. tag_id tag = k) T)) else None)"
proof -
  have "grouped T = (\<lambda>k. if k \<in> tag_id ` set T
      then Some (map tag_value (filter (\<lambda>tag. tag_id tag = k) T)) else None)"
    by (rule ext) (auto simp add: grouped_def values_of_def filter_empty_conv)
  with assms show ?thesis
    by (simp add: orderTags_eq)
qed

lemma orderTags_Nil: "orderTags ([] :: 'v ITag list) = Inr Map.empty"
  by (simp add: orderTags_def)

text \<open>
  Claim C4. The claim is that \<open>orderTags\<close> returns, for every list of tags, the dictionary
  holding each value once under its id. For the list of the one tag with id
  \<open>constructor\<close> the code returns no dictionary: the inherited property
  \<^verbatim>\<open>Object.prototype.constructor\<close> is found in place of an array, and the call of its
  \<^verbatim>\<open>push\<close> raises a \<^verbatim>\<open>TypeError\<close>.
\<close>

theorem orderTags_constructor_id_raises:
  "orderTags [\<lparr>tag_id = ''constructor'', tag_value = ''x''\<rparr>] = Inl TypeError"
  by (simp add: orderTags_def get_property_def Object_prototype_properties_def)

text \<open>
  Concatenation. Where \<open>orderTags\<close> returns a dictionary for \<open>T1\<close> and for \<open>T2\<close>, it returns
  for \<open>T1 @ T2\<close> the dictionary that holds, for each id, the values of that id in the first
  followed by those in the second; where it raises on \<open>T1\<close> or on \<open>T2\<close>, it raises on
  \<open>T1 @ T2\<close>.
\<close>

lemma orderTags_concat:
  "orderTags (T1 @ T2) =
     (case orderTags T1 of
        Inl e \<Rightarrow> Inl e
      | Inr d1 \<Rightarrow> (case orderTags T2 of Inl e \<Rightarrow> Inl e | Inr d2 \<Rightarrow> Inr (concat_groups d1 d2)))"
  by (simp add: orderTags_eq plain_ids_append grouped_append)

lemma orderTags_concat_plain:
  assumes "plain_ids T1" and "plain_ids T2"
  shows "orderTags (T1 @ T2) = Inr (concat_groups (grouped T1) (grouped T2))"
    and "orderTags T1 = Inr (grouped T1)"
    and "orderTags T2 = Inr (grouped T2)"
  using assms by (simp_all add: orderTags_eq plain_ids_append grouped_append)

text \<open>
  Claim C10. The claim is that for all lists \<open>T1\<close> and \<open>T2\<close> the result of \<open>orderTags\<close> on
  \<open>T1 @ T2\<close> is the dictionary that holds, for each id, the values of that id in
  \<open>orderTags T1\<close> followed by those in \<open>orderTags T2\<close>. For \<open>T1\<close> the one tag with id
  \<open>TIT2\<close> and \<open>T2\<close> the one tag with id \<open>toString\<close>, \<open>orderTags\<close> returns a dictionary for
  \<open>T1\<close>, with the value under \<open>TIT2\<close>, and returns none for \<open>T2\<close> and none for \<open>T1 @ T2\<close>:
  both raise a \<^verbatim>\<open>TypeError\<close>, the inherited \<^verbatim>\<open>Object.prototype.toString\<close> being found in
  place of an array.
\<close>

theorem orderTags_concat_toString_id_raises:
  "(case orderTags [\<lparr>tag_id = ''TIT2'', tag_value = ''a''\<rparr>] of
      Inl e \<Rightarrow> None
    | Inr d \<Rightarrow> d ''TIT2'') = Some [''a''] \<and>
   orderTags [\<lparr>tag_id = ''toString'', tag_value = ''b''\<rparr>] = Inl TypeError \<and>
   orderTags ([\<lparr>tag_id = ''TIT2'', tag_value = ''a''\<rparr>] @ [\<lparr>tag_id = ''toString'', tag_value = ''b''\<rparr>])
     = Inl TypeError"
  by (simp add: orderTags_def get_property_def Object_prototype_properties_def)

section \<open>Properties of the entry points\<close>

lemmas promise_defs = then_promise_def catch_promise_def call_def resolve_def throw_def close_def

lemmas example_defs =
  example_env_def missing_file_env_def broken_module_env_def corrupt_file_env_def
  failing_close_env_def corrupt_file_failing_close_env_def unsized_buffer_env_def example_options_def

lemma example_extname_xyz: "example_extname ''track.xyz'' = ''.xyz''"
  by (simp add: example_extname_def)

lemma example_extname_mp3: "example_extname ''song.mp3'' = ''.mp3''"
  by (simp add: example_extname_def)

text \<open>The run in which every step succeeds: one \<open>Close\<close>, then the compiled result.\<close>

lemma parseFile_success:
  "strtok3_fromFile env filePath = Inr fileTokenizer \<Longrightarrow>
   getParserIdForExtension env filePath = Some parserName \<Longrightarrow>
   loadParser env parserName options = Inr parser \<Longrightarrow>
   parser_parse env parser (new_MetadataCollector env options) fileTokenizer options = Inr metadata \<Longrightarrow>
   tokenizer_close env 0 = Inr () \<Longrightarrow>
   parseFile env filePath options [] =
     ([FromFile filePath, LoadParser parserName, Parse, Close], Inr (toCommonMetadata env metadata))"
  by (simp add: parseFile_def promise_defs)

text \<open>
  The decoder succeeds and the first \<open>close\<close> rejects: the handler attached after the
  decoder catches that rejection too and calls \<open>close\<close> again.
\<close>

lemma parseFile_close_rejects:
  "strtok3_fromFile env filePath = Inr fileTokenizer \<Longrightarrow>
   getParserIdForExtension env filePath = Some parserName \<Longrightarrow>
   loadParser env parserName options = Inr parser \<Longrightarrow>
   parser_parse env parser (new_MetadataCollector env options) fileTokenizer options = Inr metadata \<Longrightarrow>
   tokenizer_close env 0 = Inl closeError \<Longrightarrow>
   parseFile env filePath options [] =
     ([FromFile filePath, LoadParser parserName, Parse, Close, Close],
      case tokenizer_close env 1 of Inl e \<Rightarrow> Inl e | Inr _ \<Rightarrow> Inl closeError)"
  by (simp add: parseFile_def promise_defs split: sum.splits)

text \<open>A decoder module that fails to load: the rejection passes through, nothing is closed.\<close>

lemma parseFile_load_fails:
  "strtok3_fromFile env filePath = Inr fileTokenizer \<Longrightarrow>
   getParserIdForExtension env filePath = Some parserName \<Longrightarrow>
   loadParser env parserName options = Inl err \<Longrightarrow>
   parseFile env filePath options [] = ([FromFile filePath, LoadParser parserName], Inl err)"
  by (simp add: parseFile_def promise_defs)

text \<open>
  Claim C1. The claim is that the tokenizer, once opened, is closed exactly once on every
  path. Evaluated on three runs that open the tokenizer: with an extension that has no
  decoder \<open>close\<close> is never called; with a decoder module that fails to load \<open>close\<close> is
  never called; and when the decoder succeeds and the first \<open>close\<close> fails, the handler
  meant for decoder failures runs and \<open>close\<close> is called twice.
\<close>

theorem parseFile_close_count_defects:
  "strtok3_fromFile example_env ''track.xyz'' = Inr \<lparr>tokenizer_fileSize = Some 4096\<rparr> \<and>
   count_list (fst (parseFile example_env ''track.xyz'' example_options [])) Close = 0 \<and>
   count_list (fst (parseFile
       broken_module_env
       ''song.mp3'' example_options [])) Close = 0 \<and>
   count_list (fst (parseFile
       failing_close_env
       ''song.mp3'' example_options [])) Close = 2"
  by (simp add: parseFile_def promise_defs example_defs example_extname_xyz example_extname_mp3)

text \<open>
  Claim C2, as the code has it. \<open>parseFile\<close> opens the tokenizer first. For a path whose
  extension has no registered decoder: when the tokenizer opens, \<open>parseFile\<close> fails with
  the error whose message is \<open>No parser found for extension: \<close> followed by the extension;
  when the tokenizer cannot be opened, \<open>parseFile\<close> fails with the error of the tokenizer.
  In both cases the attempt to open the tokenizer is all that has happened: no decoder
  was loaded or run.
\<close>

theorem parseFile_unregistered_extension:
  "getParserIdForExtension env filePath = None \<Longrightarrow>
   parseFile env filePath options [] =
     ([FromFile filePath],
      case strtok3_fromFile env filePath of
        Inl openError \<Rightarrow> Inl openError
      | Inr fileTokenizer \<Rightarrow>
          Inl (Error (''No parser found for extension: '' @ path_extname env filePath)))"
  by (simp add: parseFile_def promise_defs split: sum.splits)

theorem parseFile_unregistered_extension_witness:
  "getParserIdForExtension example_env ''track.xyz'' = None \<and>
   strtok3_fromFile example_env ''track.xyz'' = Inr \<lparr>tokenizer_fileSize = Some 4096\<rparr> \<and>
   parseFile example_env ''track.xyz'' example_options [] =
     ([FromFile ''track.xyz''], Inl (Error ''No parser found for extension: .xyz'')) \<and>
   getParserIdForExtension missing_file_env ''lost.xyz'' = None \<and>
   strtok3_fromFile missing_file_env ''lost.xyz'' = Inl (Error ''ENOENT'') \<and>
   parseFile missing_file_env ''lost.xyz'' example_options [] =
     ([FromFile ''lost.xyz''], Inl (Error ''ENOENT''))"
  using parseFile_unregistered_extension [of example_env "''track.xyz''" example_options]
    parseFile_unregistered_extension [of missing_file_env "''lost.xyz''" example_options]
  by (simp add: example_defs example_extname_def)

text \<open>
  The claim as stated fails: for a file that cannot be opened the caller gets the error of
  the tokenizer, not the one naming the extension, and for a file that can be opened the
  tokenizer has been acquired when the extension is rejected.
\<close>

theorem parseFile_opens_before_extension_check:
  "getParserIdForExtension missing_file_env ''track.xyz'' = None \<and>
   parseFile missing_file_env ''track.xyz'' example_options [] =
     ([FromFile ''track.xyz''], Inl (Error ''ENOENT'')) \<and>
   fst (parseFile example_env ''track.xyz'' example_options []) \<noteq> []"
  by (simp add: parseFile_def promise_defs example_defs example_extname_xyz)

text \<open>
  Claim C3. When the decoder's \<open>parse\<close> rejects, the tokenizer is closed, once and after
  the decoder ran, and the caller gets the error of the decoder unchanged, unless this
  \<open>close\<close> fails: then the caller gets the error of \<open>close\<close>.
\<close>

theorem parseFile_parse_rejects:
  "strtok3_fromFile env filePath = Inr fileTokenizer \<Longrightarrow>
   getParserIdForExtension env filePath = Some parserName \<Longrightarrow>
   loadParser env parserName options = Inr parser \<Longrightarrow>
   parser_parse env parser (new_MetadataCollector env options) fileTokenizer options = Inl err \<Longrightarrow>
   parseFile env filePath options [] =
     ([FromFile filePath, LoadParser parserName, Parse, Close],
      case tokenizer_close env 0 of Inl closeError \<Rightarrow> Inl closeError | Inr _ \<Rightarrow> Inl err)"
  by (simp add: parseFile_def promise_defs split: sum.splits)

theorem parseFile_parse_rejects_witness:
  "parseFile corrupt_file_env
      ''song.mp3'' example_options [] =
     ([FromFile ''song.mp3'', LoadParser Mpeg, Parse, Close], Inl (Error ''Invalid frame header'')) \<and>
   parseFile corrupt_file_failing_close_env
      ''song.mp3'' example_options [] =
     ([FromFile ''song.mp3'', LoadParser Mpeg, Parse, Close], Inl (Error ''EIO''))"
  using parseFile_parse_rejects
    [of corrupt_file_env
        "''song.mp3''" "\<lparr>tokenizer_fileSize = Some 4096\<rparr>" Mpeg example_options Mpeg "Error ''Invalid frame header''"]
    parseFile_parse_rejects
    [of corrupt_file_failing_close_env
        "''song.mp3''" "\<lparr>tokenizer_fileSize = Some 4096\<rparr>" Mpeg example_options Mpeg "Error ''Invalid frame header''"]
  by (simp add: example_defs example_extname_mp3)

text \<open>What the shared statement does to the tokenizer and to the trace.\<close>

lemma assign_fileSize_run:
  "assign_fileSize tokenizer options trace =
     (if (tokenizer_fileSize tokenizer = None \<or> tokenizer_fileSize tokenizer = Some 0) \<and>
         (\<exists>n. options_fileSize options = Some n \<and> n \<noteq> 0)
      then (trace @ [AssignFileSize (options_fileSize options)],
            Inr (tokenizer\<lparr>tokenizer_fileSize := options_fileSize options\<rparr>))
      else (trace, Inr tokenizer))"
  by (auto simp add: assign_fileSize_def truthy_def promise_defs split: option.splits)

text \<open>
  Claim C7, as the code has it. In \<open>parseStream\<close> and in \<open>parseBuffer\<close>, when the tokenizer
  reports no size and \<open>options.fileSize\<close> is given and is not 0, that size is assigned to
  the \<open>fileSize\<close> of the tokenizer before \<open>ParserFactory.parse\<close> is invoked, and
  \<open>ParserFactory.parse\<close> receives the tokenizer with that size.
\<close>

theorem fileSize_applied_before_ParserFactory_parse:
  "(strtok3_fromStream env stream = Inr tokenizer \<and> tokenizer_fileSize tokenizer = None \<and>
    options_fileSize options = Some n \<and> n \<noteq> 0 \<longrightarrow>
      parseStream env stream mimeType options [] =
        ([FromStream, AssignFileSize (Some n),
          FactoryParse (tokenizer\<lparr>tokenizer_fileSize := Some n\<rparr>) mimeType],
         ParserFactory_parse env (tokenizer\<lparr>tokenizer_fileSize := Some n\<rparr>) mimeType options)) \<and>
   (strtok3_fromBuffer env buf = tokenizer \<and> tokenizer_fileSize tokenizer = None \<and>
    options_fileSize options = Some n \<and> n \<noteq> 0 \<longrightarrow>
      parseBuffer env buf mimeType options [] =
        ([FromBuffer, AssignFileSize (Some n),
          FactoryParse (tokenizer\<lparr>tokenizer_fileSize := Some n\<rparr>) mimeType],
         ParserFactory_parse env (tokenizer\<lparr>tokenizer_fileSize := Some n\<rparr>) mimeType options))"
  by (simp add: parseStream_def parseBuffer_def assign_fileSize_run then_promise_def call_def)

theorem fileSize_applied_before_ParserFactory_parse_witness:
  "strtok3_fromStream example_env None = Inr \<lparr>tokenizer_fileSize = None\<rparr> \<and>
   options_fileSize (example_options\<lparr>options_fileSize := Some 4096\<rparr>) = Some 4096 \<and>
   parseStream example_env None (Some ''audio/mpeg'') (example_options\<lparr>options_fileSize := Some 4096\<rparr>) [] =
     ([FromStream, AssignFileSize (Some 4096),
       FactoryParse \<lparr>tokenizer_fileSize = Some 4096\<rparr> (Some ''audio/mpeg'')], Inr 3) \<and>
   strtok3_fromBuffer unsized_buffer_env [73, 68, 51]
     = \<lparr>tokenizer_fileSize = None\<rparr> \<and>
   parseBuffer unsized_buffer_env [73, 68, 51]
       (Some ''audio/mpeg'') (example_options\<lparr>options_fileSize := Some 4096\<rparr>) [] =
     ([FromBuffer, AssignFileSize (Some 4096),
       FactoryParse \<lparr>tokenizer_fileSize = Some 4096\<rparr> (Some ''audio/mpeg'')], Inr 3)"
  using fileSize_applied_before_ParserFactory_parse
    [of example_env None "\<lparr>tokenizer_fileSize = None\<rparr>" "example_options\<lparr>options_fileSize := Some 4096\<rparr>"
        4096 "Some ''audio/mpeg''" "[73, 68, 51]"]
    fileSize_applied_before_ParserFactory_parse
    [of unsized_buffer_env None
        "\<lparr>tokenizer_fileSize = None\<rparr>" "example_options\<lparr>options_fileSize := Some 4096\<rparr>"
        4096 "Some ''audio/mpeg''" "[73, 68, 51]"]
  by (simp add: example_defs)

text \<open>
  The claim as stated fails for a given size of 0: the tokenizer reports no size,
  \<open>options.fileSize\<close> is 0, and \<open>ParserFactory.parse\<close> receives the tokenizer still
  without a size, with no assignment before.
\<close>

theorem fileSize_zero_not_applied:
  "strtok3_fromStream example_env None = Inr \<lparr>tokenizer_fileSize = None\<rparr> \<and>
   options_fileSize (example_options\<lparr>options_fileSize := Some 0\<rparr>) = Some 0 \<and>
   fst (parseStream example_env None (Some ''audio/mpeg'') (example_options\<lparr>options_fileSize := Some 0\<rparr>) []) =
     [FromStream, FactoryParse \<lparr>tokenizer_fileSize = None\<rparr> (Some ''audio/mpeg'')]"
  by (simp add: parseStream_def assign_fileSize_run then_promise_def call_def example_defs)

text \<open>
  Claim C9, as the code has it. \<open>parseStream\<close> and \<open>parseBuffer\<close> overwrite the
  \<open>fileSize\<close> of the tokenizer with \<open>options.fileSize\<close> exactly when the former is absent
  or 0 and the latter is a number other than 0; in every other case there is no assignment
  and \<open>ParserFactory.parse\<close> receives the tokenizer unchanged. In particular a tokenizer
  that reports a size of 0 is overwritten when \<open>options.fileSize\<close> is given and is not 0.
\<close>

theorem fileSize_overwritten_iff:
  "(strtok3_fromStream env stream = Inr tokenizer \<longrightarrow>
      parseStream env stream mimeType options [] =
        (if (tokenizer_fileSize tokenizer = None \<or> tokenizer_fileSize tokenizer = Some 0) \<and>
            (\<exists>n. options_fileSize options = Some n \<and> n \<noteq> 0)
         then ([FromStream, AssignFileSize (options_fileSize options),
                FactoryParse (tokenizer\<lparr>tokenizer_fileSize := options_fileSize options\<rparr>) mimeType],
               ParserFactory_parse env (tokenizer\<lparr>tokenizer_fileSize := options_fileSize options\<rparr>)
                 mimeType options)
         else ([FromStream, FactoryParse tokenizer mimeType],
               ParserFactory_parse env tokenizer mimeType options))) \<and>
   (strtok3_fromBuffer env buf = tokenizer \<longrightarrow>
      parseBuffer env buf mimeType options [] =
        (if (tokenizer_fileSize tokenizer = None \<or> tokenizer_fileSize tokenizer = Some 0) \<and>
            (\<exists>n. options_fileSize options = Some n \<and> n \<noteq> 0)
         then ([FromBuffer, AssignFileSize (options_fileSize options),
                FactoryParse (tokenizer\<lparr>tokenizer_fileSize := options_fileSize options\<rparr>) mimeType],
               ParserFactory_parse env (tokenizer\<lparr>tokenizer_fileSize := options_fileSize options\<rparr>)
                 mimeType options)
         else ([FromBuffer, FactoryParse tokenizer mimeType],
               ParserFactory_parse env tokenizer mimeType options)))"
proof -
  let ?overwrite = "(tokenizer_fileSize tokenizer = None \<or> tokenizer_fileSize tokenizer = Some 0) \<and>
    (\<exists>n. options_fileSize options = Some n \<and> n \<noteq> 0)"
  let ?assigned = "tokenizer\<lparr>tokenizer_fileSize := options_fileSize options\<rparr>"
  have feed: "then_promise (assign_fileSize tokenizer options)
        (\<lambda>tok. call (FactoryParse tok mimeType) (ParserFactory_parse env tok mimeType options)) [ev] =
      (if ?overwrite
       then ([ev, AssignFileSize (options_fileSize options), FactoryParse ?assigned mimeType],
             ParserFactory_parse env ?assigned mimeType options)
       else ([ev, FactoryParse tokenizer mimeType], ParserFactory_parse env tokenizer mimeType options))"
    for ev
  proof (cases ?overwrite)
    case True
    then have cond: "?overwrite = True" by (rule eqTrueI)
    have "assign_fileSize tokenizer options [ev] =
        ([ev] @ [AssignFileSize (options_fileSize options)], Inr ?assigned)"
      by (simp only: assign_fileSize_run cond if_True)
    then have "then_promise (assign_fileSize tokenizer options)
        (\<lambda>tok. call (FactoryParse tok mimeType) (ParserFactory_parse env tok mimeType options)) [ev] =
        ([ev, AssignFileSize (options_fileSize options), FactoryParse ?assigned mimeType],
         ParserFactory_parse env ?assigned mimeType options)"
      by (simp add: then_promise_def call_def)
    then show ?thesis by (simp only: cond if_True)
  next
    case False
    then have cond: "?overwrite = False" by (rule eq_False [THEN iffD2])
    have "assign_fileSize tokenizer options [ev] = ([ev], Inr tokenizer)"
      by (simp only: assign_fileSize_run cond if_False)
    then have "then_promise (assign_fileSize tokenizer options)
        (\<lambda>tok. call (FactoryParse tok mimeType) (ParserFactory_parse env tok mimeType options)) [ev] =
        ([ev, FactoryParse tokenizer mimeType], ParserFactory_parse env tokenizer mimeType options)"
      by (simp add: then_promise_def call_def)
    then show ?thesis by (simp only: cond if_False)
  qed
  have stream: "parseStream env stream mimeType options [] =
      then_promise (assign_fileSize tokenizer options)
        (\<lambda>tok. call (FactoryParse tok mimeType) (ParserFactory_parse env tok mimeType options)) [FromStream]"
    if "strtok3_fromStream env stream = Inr tokenizer"
    using that by (simp add: parseStream_def then_promise_def call_def)
  have buffer: "parseBuffer env buf mimeType options [] =
      then_promise (assign_fileSize tokenizer options)
        (\<lambda>tok. call (FactoryParse tok mimeType) (ParserFactory_parse env tok mimeType options)) [FromBuffer]"
    if "strtok3_fromBuffer env buf = tokenizer"
    using that by (simp add: parseBuffer_def then_promise_def call_def)
  from stream buffer show ?thesis
    by (simp only: feed) simp
qed

theorem fileSize_overwritten_iff_witness:
  "strtok3_fromBuffer example_env [] = \<lparr>tokenizer_fileSize = Some 0\<rparr> \<and>
   parseBuffer example_env [] None (example_options\<lparr>options_fileSize := Some 512\<rparr>) [] =
     ([FromBuffer, AssignFileSize (Some 512), FactoryParse \<lparr>tokenizer_fileSize = Some 512\<rparr> None], Inr 3) \<and>
   strtok3_fromStream example_env (Some 100) = Inr \<lparr>tokenizer_fileSize = Some 100\<rparr> \<and>
   parseStream example_env (Some 100) None (example_options\<lparr>options_fileSize := Some 512\<rparr>) [] =
     ([FromStream, FactoryParse \<lparr>tokenizer_fileSize = Some 100\<rparr> None], Inr 3)"
  using fileSize_overwritten_iff
    [of example_env "Some 100" "\<lparr>tokenizer_fileSize = Some 100\<rparr>" None
        "example_options\<lparr>options_fileSize := Some 512\<rparr>" "[]"]
    fileSize_overwritten_iff
    [of example_env "Some 100" "\<lparr>tokenizer_fileSize = Some 0\<rparr>" None
        "example_options\<lparr>options_fileSize := Some 512\<rparr>" "[]"]
  by (simp add: example_defs)

text \<open>
  The claim as stated fails: the \<open>fileSize\<close> of the tokenizer is absent, \<open>options.fileSize\<close>
  is given as 0, and nothing is overwritten.
\<close>

theorem fileSize_absent_not_overwritten_by_zero:
  "tokenizer_fileSize \<lparr>tokenizer_fileSize = None\<rparr> = None \<and>
   strtok3_fromStream example_env None = Inr \<lparr>tokenizer_fileSize = None\<rparr> \<and>
   options_fileSize (example_options\<lparr>options_fileSize := Some 0\<rparr>) = Some 0 \<and>
   AssignFileSize (Some 0) \<notin> set (fst (parseStream example_env None None (example_options\<lparr>options_fileSize := Some 0\<rparr>) [])) \<and>
   FactoryParse \<lparr>tokenizer_fileSize = None\<rparr> None \<in> set (fst (parseStream example_env None None (example_options\<lparr>options_fileSize := Some 0\<rparr>) [])) \<and>
   FactoryParse \<lparr>tokenizer_fileSize = Some 0\<rparr> None \<notin> set (fst (parseStream example_env None None (example_options\<lparr>options_fileSize := Some 0\<rparr>) []))"
  by (simp add: parseStream_def assign_fileSize_run then_promise_def call_def example_defs)

end
